theory Spec2Isabelle
  imports Complex_Main "HOL-Library.More_List" "HOL-Library.AList"
begin

text \<open>
  The merge of the three freight workbooks (\<open>merge/merge_all.py\<close>) and the parts of its
  extractors (\<open>merge/read_base_valores.py\<close>, \<open>merge/read_calculo_frete.py\<close>,
  \<open>merge/read_cotacao.py\<close>) that the claims C1 to C10 are about, as functions over cell
  grids and DataFrames. The pandas operations the code calls are written out as pandas
  documents them; exceptions are values of the type \<open>error\<close>.
\<close>

section \<open>Python text\<close>

text \<open>
  A Python \<open>str\<close> is modelled as a \<^typ>\<open>string\<close> in which every \<^typ>\<open>char\<close> is one
  code point below 256 (Latin-1, which holds the Portuguese labels of the workbooks:
  code point 218 is the capital U with acute accent, 186 the masculine ordinal sign).
  \<open>str.lower\<close>, \<open>str.strip\<close> and \<open>str.replace\<close> are written out for these code points.
\<close>

definition lower_char :: "char \<Rightarrow> char" where
  "lower_char c =
     (let n = (of_char c :: nat)
      in if (65 \<le> n \<and> n \<le> 90) \<or> (192 \<le> n \<and> n \<le> 222 \<and> n \<noteq> 215)
         then char_of (n + 32) else c)"

definition lower :: "string \<Rightarrow> string" where
  "lower s = map lower_char s"

definition isspace :: "char \<Rightarrow> bool" where
  "isspace c =
     (let n = (of_char c :: nat)
      in (9 \<le> n \<and> n \<le> 13) \<or> (28 \<le> n \<and> n \<le> 32) \<or> n = 133 \<or> n = 160)"

definition strip :: "string \<Rightarrow> string" where
  "strip s = rev (dropWhile isspace (rev (dropWhile isspace s)))"

text \<open>\<open>s.replace(old, new)\<close> for a pattern \<open>old\<close> of one character.\<close>

definition replace :: "char \<Rightarrow> string \<Rightarrow> string \<Rightarrow> string" where
  "replace old new s = concat (map (\<lambda>c. if c = old then new else [c]) s)"

section \<open>Slugs of metric labels\<close>

text \<open>\<open>_slug\<close> of \<open>read_base_valores.py\<close>: the chain of replacements in the order of the source,
  then the slice \<open>[:50]\<close>.\<close>

definition slug :: "string \<Rightarrow> string" where
  "slug s =
     take 50
       (replace CHR ''.'' ''''
       (replace CHR '':'' ''''
       (replace CHR ''-'' ''_''
       (replace CHR '')'' ''''
       (replace CHR ''('' ''''
       (replace CHR ''/'' ''_''
       (replace CHR ''%'' ''pct''
       (replace CHR '' '' ''_'' (lower s)))))))))"

text \<open>The rule as the specification words it: lowercase, spaces to underscores, the percent
  sign to \<open>pct\<close>, the characters \<open>/ ( ) : . -\<close> stripped, at most 50 characters.\<close>

definition slug_spec :: "string \<Rightarrow> string" where
  "slug_spec s =
     take 50
       (filter (\<lambda>c. c \<notin> set ''/():.-'')
         (replace CHR ''%'' ''pct'' (replace CHR '' '' ''_'' (lower s))))"

text \<open>What one character of the lowercased label becomes.\<close>

definition slug_char :: "char \<Rightarrow> string" where
  "slug_char c =
     (if c = CHR '' '' \<or> c = CHR ''/'' \<or> c = CHR ''-'' then ''_''
      else if c = CHR ''%'' then ''pct''
      else if c = CHR ''('' \<or> c = CHR '')'' \<or> c = CHR '':'' \<or> c = CHR ''.'' then ''''
      else [c])"

section \<open>Cell values, floats and exceptions\<close>

text \<open>
  The exceptions the modelled code can raise. A function that may raise returns
  \<open>error + 'a\<close>, with \<open>Inl\<close> the exception.
\<close>

datatype error = KeyError | ValueError | TypeError | IndexError

text \<open>
  A cell of a sheet or of a DataFrame: missing (\<open>NaN\<close> or \<open>None\<close>, which \<open>pd.isna\<close> does not
  tell apart), a number, a text or a boolean. Numbers are exact rationals: rounding and
  the infinite floats are not modelled, and neither are date cells.
\<close>

datatype cell = NaN | Num rat | Str string | Bool bool

definition isna :: "cell \<Rightarrow> bool" where
  "isna x = (x = NaN)"

definition notna :: "cell \<Rightarrow> bool" where
  "notna x = (x \<noteq> NaN)"

text \<open>A Python float: \<open>None\<close> is the float \<open>nan\<close>.\<close>

type_synonym pyfloat = "rat option"

text \<open>
  \<open>float(x)\<close>. What \<open>float\<close> makes of a text is Python's own parser; it is the parameter
  \<open>pf\<close>, which gives \<open>None\<close> where \<open>float\<close> raises \<open>ValueError\<close>.
\<close>

fun py_float :: "(string \<Rightarrow> pyfloat option) \<Rightarrow> cell \<Rightarrow> error + pyfloat" where
  "py_float pf NaN = Inr None"
| "py_float pf (Num r) = Inr (Some r)"
| "py_float pf (Str s) = (case pf s of None \<Rightarrow> Inl ValueError | Some v \<Rightarrow> Inr v)"
| "py_float pf (Bool b) = Inr (Some (if b then 1 else 0))"


text \<open>A float stored in a table cell.\<close>

fun cell_of_float :: "pyfloat \<Rightarrow> cell" where
  "cell_of_float None = NaN"
| "cell_of_float (Some r) = Num r"


text \<open>\<open>_num\<close> of \<open>read_calculo_frete.py\<close> and \<open>read_cotacao.py\<close>: a float, or missing.\<close>

definition num :: "(string \<Rightarrow> pyfloat option) \<Rightarrow> cell \<Rightarrow> cell" where
  "num pf x =
     (if isna x then NaN
      else case py_float pf x of Inl e \<Rightarrow> NaN | Inr v \<Rightarrow> cell_of_float v)"


text \<open>\<open>s.endswith(suffix)\<close>.\<close>

definition endswith :: "string \<Rightarrow> string \<Rightarrow> bool" where
  "endswith s suffix = (length suffix \<le> length s \<and> drop (length s - length suffix) s = suffix)"

section \<open>Workbooks and sheets\<close>

text \<open>
  A workbook that has been opened is the list of its sheets, each a name and the grid of
  cells that \<open>pd.read_excel(xl, sheet_name, header=None)\<close> returns. The grid is as wide as
  its longest row; a shorter row reads as missing cells beyond its end.
\<close>

type_synonym grid = "cell list list"

type_synonym workbook = "(string \<times> grid) list"

definition sheet_names :: "workbook \<Rightarrow> string list" where
  "sheet_names wb = map fst wb"

text \<open>\<open>pd.read_excel\<close> raises \<open>ValueError\<close> for a sheet name the workbook does not have.\<close>

definition read_excel :: "workbook \<Rightarrow> string \<Rightarrow> error + grid" where
  "read_excel wb name = (case map_of wb name of None \<Rightarrow> Inl ValueError | Some g \<Rightarrow> Inr g)"

definition nrows :: "grid \<Rightarrow> nat" where
  "nrows g = length g"

definition ncols :: "grid \<Rightarrow> nat" where
  "ncols g = foldr (\<lambda>r n. max (length r) n) g 0"

text \<open>\<open>df.iloc[r, c]\<close> with indices that are not negative.\<close>

definition iloc :: "grid \<Rightarrow> nat \<Rightarrow> nat \<Rightarrow> error + cell" where
  "iloc g r c =
     (if r < nrows g \<and> c < ncols g then Inr (nth_default NaN (g ! r) c) else Inl IndexError)"

text \<open>The rows as \<open>df.iterrows()\<close> and \<open>df.iloc[r]\<close> give them: each as wide as the grid.\<close>

definition grid_row :: "grid \<Rightarrow> cell list \<Rightarrow> cell list" where
  "grid_row g r = map (nth_default NaN r) [0..<ncols g]"

definition iterrows :: "grid \<Rightarrow> cell list list" where
  "iterrows g = map (grid_row g) g"

text \<open>\<open>row.iloc[i]\<close> on one row.\<close>

definition row_iloc :: "cell list \<Rightarrow> nat \<Rightarrow> error + cell" where
  "row_iloc row i = (if i < length row then Inr (row ! i) else Inl IndexError)"

section \<open>DataFrames\<close>

text \<open>
  A DataFrame with the default index: its column names in order, and its rows, each a list
  of cells in the order of the columns. Column names may repeat.
\<close>

record frame =
  columns :: "string list"
  rows :: "cell list list"

text \<open>\<open>pd.DataFrame()\<close>.\<close>

definition empty_frame :: frame where
  "empty_frame = \<lparr>columns = [], rows = []\<rparr>"

text \<open>\<open>df.empty\<close>: one of the two axes has length 0.\<close>

definition df_empty :: "frame \<Rightarrow> bool" where
  "df_empty f = (columns f = [] \<or> rows f = [])"

text \<open>The elements of a list without repetition, in the order of their first occurrence.\<close>

definition uniq :: "'a list \<Rightarrow> 'a list" where
  "uniq xs = rev (remdups (rev xs))"

text \<open>
  \<open>pd.DataFrame(records)\<close> for a list of dicts (a dict is a list of pairs with distinct
  keys, in insertion order): the columns are the keys in the order they first appear, and
  a key a record lacks gives a missing cell.
\<close>

definition dict_get :: "(string \<times> cell) list \<Rightarrow> string \<Rightarrow> cell" where
  "dict_get d c = (case map_of d c of None \<Rightarrow> NaN | Some v \<Rightarrow> v)"

definition DataFrame :: "(string \<times> cell) list list \<Rightarrow> frame" where
  "DataFrame records =
     (let cs = uniq (concat (map (map fst) records))
      in \<lparr>columns = cs, rows = map (\<lambda>d. map (dict_get d) cs) records\<rparr>)"

fun index_of :: "'a \<Rightarrow> 'a list \<Rightarrow> nat option" where
  "index_of x [] = None"
| "index_of x (y # ys) = (if x = y then Some 0 else map_option Suc (index_of x ys))"

text \<open>The cell of a row at a position; a row shorter than the columns reads as missing.\<close>

definition cell_at :: "cell list \<Rightarrow> nat \<Rightarrow> cell" where
  "cell_at r i = nth_default NaN r i"

text \<open>\<open>df[c] = v\<close> for a scalar \<open>v\<close>: the column is overwritten, or appended when new.\<close>

definition assign_col :: "string \<Rightarrow> cell \<Rightarrow> frame \<Rightarrow> frame" where
  "assign_col c v f =
     (case index_of c (columns f) of
        Some i \<Rightarrow> \<lparr>columns = columns f, rows = map (\<lambda>r. r[i := v]) (rows f)\<rparr>
      | None \<Rightarrow> \<lparr>columns = columns f @ [c], rows = map (\<lambda>r. r @ [v]) (rows f)\<rparr>)"

text \<open>The positions of the key columns, \<open>KeyError\<close> when one is not a column.\<close>

fun key_indices :: "string list \<Rightarrow> string list \<Rightarrow> error + nat list" where
  "key_indices cs [] = Inr []"
| "key_indices cs (k # ks) =
     (case index_of k cs of
        None \<Rightarrow> Inl KeyError
      | Some i \<Rightarrow> (case key_indices cs ks of Inl e \<Rightarrow> Inl e | Inr ixs \<Rightarrow> Inr (i # ixs)))"

definition key_of :: "nat list \<Rightarrow> cell list \<Rightarrow> cell list" where
  "key_of ixs r = map (cell_at r) ixs"

text \<open>
  \<open>df.drop_duplicates(subset=keys, keep="first").reset_index(drop=True)\<close>: a row is dropped
  when an earlier row has the same key; missing cells count as equal.
\<close>

fun keep_first :: "('a \<Rightarrow> 'k) \<Rightarrow> 'k list \<Rightarrow> 'a list \<Rightarrow> 'a list" where
  "keep_first f seen [] = []"
| "keep_first f seen (x # xs) =
     (if f x \<in> set seen then keep_first f seen xs else x # keep_first f (f x # seen) xs)"

definition drop_duplicates :: "string list \<Rightarrow> frame \<Rightarrow> error + frame" where
  "drop_duplicates keys f =
     (case key_indices (columns f) keys of
        Inl e \<Rightarrow> Inl e
      | Inr ixs \<Rightarrow> Inr \<lparr>columns = columns f, rows = keep_first (key_of ixs) [] (rows f)\<rparr>)"

text \<open>\<open>df.drop(columns=[c for c in df.columns if p(c)], errors="ignore")\<close>.\<close>

definition drop_columns :: "(string \<Rightarrow> bool) \<Rightarrow> frame \<Rightarrow> frame" where
  "drop_columns p f =
     (let keep = filter (\<lambda>i. \<not> p (columns f ! i)) [0..<length (columns f)]
      in \<lparr>columns = map (\<lambda>i. columns f ! i) keep, rows = map (\<lambda>r. map (cell_at r) keep) (rows f)\<rparr>)"

section \<open>The outer join\<close>

text \<open>
  \<open>left.merge(right, on=keys, how="outer", suffixes=("", "_dup"))\<close>, as pandas documents it:
  both frames must have the key columns (\<open>KeyError\<close> otherwise); the result has the columns
  of the left frame followed by the columns of the right frame that are not keys, a right
  column whose name the left frame also has being renamed with the suffix \<open>_dup\<close>; the keys
  of both frames are united and sorted lexicographically; rows with the same key are
  paired in all combinations, and a key that only one frame has gives rows with missing
  cells on the other side. Missing cells in a key match each other. Column types are not
  modelled; the order below puts booleans before numbers before texts before missing
  cells.
\<close>

fun str_le :: "string \<Rightarrow> string \<Rightarrow> bool" where
  "str_le [] t = True"
| "str_le (c # s) [] = False"
| "str_le (c # s) (d # t) = ((of_char c :: nat) < of_char d \<or> (c = d \<and> str_le s t))"

fun cell_rank :: "cell \<Rightarrow> nat" where
  "cell_rank (Bool b) = 0"
| "cell_rank (Num r) = 1"
| "cell_rank (Str s) = 2"
| "cell_rank NaN = 3"

fun cell_le :: "cell \<Rightarrow> cell \<Rightarrow> bool" where
  "cell_le (Num a) (Num b) = (a \<le> b)"
| "cell_le (Str a) (Str b) = str_le a b"
| "cell_le (Bool a) (Bool b) = (a \<longrightarrow> b)"
| "cell_le x y = (cell_rank x \<le> cell_rank y)"

fun key_le :: "cell list \<Rightarrow> cell list \<Rightarrow> bool" where
  "key_le [] ys = True"
| "key_le (x # xs) [] = False"
| "key_le (x # xs) (y # ys) = (if x = y then key_le xs ys else cell_le x y)"

fun insert_key :: "cell list \<Rightarrow> cell list list \<Rightarrow> cell list list" where
  "insert_key k [] = [k]"
| "insert_key k (x # xs) = (if key_le k x then k # x # xs else x # insert_key k xs)"

definition sort_keys :: "cell list list \<Rightarrow> cell list list" where
  "sort_keys ks = foldr insert_key ks []"

text \<open>The left part of a row that only the right frame has: its key, and missing cells.\<close>

definition key_row :: "nat \<Rightarrow> nat list \<Rightarrow> cell list \<Rightarrow> cell list" where
  "key_row width ixs k = fold (\<lambda>(i, v) row. row[i := v]) (zip ixs k) (replicate width NaN)"

definition joined_rows ::
  "nat \<Rightarrow> nat list \<Rightarrow> nat list \<Rightarrow> nat list \<Rightarrow> cell list list \<Rightarrow> cell list list \<Rightarrow> cell list
    \<Rightarrow> cell list list" where
  "joined_rows width li ri rest lrows rrows k =
     (let ls = filter (\<lambda>l. key_of li l = k) lrows;
          rs = filter (\<lambda>r. key_of ri r = k) rrows;
          lpart = (\<lambda>l. map (cell_at l) [0..<width]);
          rpart = (\<lambda>r. map (cell_at r) rest)
      in if ls = [] then map (\<lambda>r. key_row width li k @ rpart r) rs
         else if rs = [] then map (\<lambda>l. lpart l @ replicate (length rest) NaN) ls
         else concat (map (\<lambda>l. map (\<lambda>r. lpart l @ rpart r) rs) ls))"

definition merge_outer :: "string list \<Rightarrow> frame \<Rightarrow> frame \<Rightarrow> error + frame" where
  "merge_outer on left right =
     (case key_indices (columns left) on of
        Inl e \<Rightarrow> Inl e
      | Inr li \<Rightarrow>
          (case key_indices (columns right) on of
             Inl e \<Rightarrow> Inl e
           | Inr ri \<Rightarrow>
               (let rest = filter (\<lambda>j. columns right ! j \<notin> set on) [0..<length (columns right)];
                    rname = (\<lambda>c. if c \<in> set (columns left) then c @ ''_dup'' else c);
                    keys = sort_keys (uniq (map (key_of li) (rows left) @ map (key_of ri) (rows right)))
                in Inr \<lparr>columns = columns left @ map (\<lambda>j. rname (columns right ! j)) rest,
                        rows = concat (map (joined_rows (length (columns left)) li ri rest
                                               (rows left) (rows right)) keys)\<rparr>)))"

section \<open>The merge engine\<close>

text \<open>
  \<open>merge_all\<close> of \<open>merge_all.py\<close>. Each of its three paths is given here by what became of
  it: \<open>None\<close> when the file does not exist, \<open>Some (Inl e)\<close> when the extractor raised \<open>e\<close>
  (which \<open>merge_all\<close> does not catch), \<open>Some (Inr r)\<close> when it returned \<open>r\<close>.
\<close>

definition join_keys :: "string list" where
  "join_keys = [''vehicle_type'', ''km_inicial'', ''km_final'']"

text \<open>Lines 28 to 48: the main tables and the context records that are collected.\<close>

definition main_dfs ::
  "(frame \<times> frame) option \<Rightarrow> frame option \<Rightarrow> (frame \<times> frame) option \<Rightarrow> frame list" where
  "main_dfs bv cf ct =
     (case bv of None \<Rightarrow> [] | Some (bv_main, bv_ctx) \<Rightarrow> [assign_col ''_source_bv'' (Bool True) bv_main])
     @ (case cf of None \<Rightarrow> []
        | Some cf_main \<Rightarrow>
            if \<not> df_empty cf_main then [assign_col ''_source_cf'' (Bool True) cf_main] else [])
     @ (case ct of None \<Rightarrow> []
        | Some (cot_main, cot_ctx) \<Rightarrow>
            if \<not> df_empty cot_main then [assign_col ''_source_cot'' (Bool True) cot_main] else [])"

definition context_dfs ::
  "(frame \<times> frame) option \<Rightarrow> (frame \<times> frame) option \<Rightarrow> frame list" where
  "context_dfs bv ct =
     (case bv of None \<Rightarrow> [] | Some (bv_main, bv_ctx) \<Rightarrow> [bv_ctx])
     @ (case ct of None \<Rightarrow> [] | Some (cot_main, cot_ctx) \<Rightarrow> [cot_ctx])"

text \<open>Lines 61 to 71: the tables are joined one after the other, and after each join the
  columns whose name ends in \<open>_dup\<close> are dropped.\<close>

fun join_all :: "frame \<Rightarrow> frame list \<Rightarrow> error + frame" where
  "join_all main [] = Inr main"
| "join_all main (df # dfs) =
     (case merge_outer join_keys main df of
        Inl e \<Rightarrow> Inl e
      | Inr m \<Rightarrow> join_all (drop_columns (\<lambda>c. endswith c ''_dup'') m) dfs)"

text \<open>
  Lines 73 to 78: where \<open>km_total\<close> is missing and both bounds are not, it becomes
  \<open>km_final - km_inicial + 1\<close>. Reading a bound column the frame lacks raises \<open>KeyError\<close>;
  the subtraction raises \<open>TypeError\<close> on cells that are not numbers.
\<close>

fun km_span :: "cell \<Rightarrow> cell \<Rightarrow> error + cell" where
  "km_span (Num f) (Num i) = Inr (Num (f - i + 1))"
| "km_span f i = Inl TypeError"

fun fill_rows :: "nat \<Rightarrow> nat \<Rightarrow> nat \<Rightarrow> cell list list \<Rightarrow> error + cell list list" where
  "fill_rows t i j [] = Inr []"
| "fill_rows t i j (r # rs) =
     (if isna (cell_at r t) \<and> notna (cell_at r i) \<and> notna (cell_at r j)
      then (case km_span (cell_at r j) (cell_at r i) of
              Inl e \<Rightarrow> Inl e
            | Inr v \<Rightarrow> (case fill_rows t i j rs of Inl e \<Rightarrow> Inl e | Inr rs' \<Rightarrow> Inr (r[t := v] # rs')))
      else (case fill_rows t i j rs of Inl e \<Rightarrow> Inl e | Inr rs' \<Rightarrow> Inr (r # rs')))"

definition fill_km_total :: "frame \<Rightarrow> error + frame" where
  "fill_km_total main =
     (case index_of ''km_total'' (columns main) of
        None \<Rightarrow> Inr main
      | Some t \<Rightarrow>
          (case index_of ''km_inicial'' (columns main) of
             None \<Rightarrow> Inl KeyError
           | Some i \<Rightarrow>
               (case index_of ''km_final'' (columns main) of
                  None \<Rightarrow> Inl KeyError
                | Some j \<Rightarrow>
                    (case fill_rows t i j (rows main) of
                       Inl e \<Rightarrow> Inl e
                     | Inr rs \<Rightarrow> Inr \<lparr>columns = columns main, rows = rs\<rparr>))))"

text \<open>The main table before the duplicates are dropped (lines 61 to 78).\<close>

definition merged_main :: "frame list \<Rightarrow> error + frame" where
  "merged_main dfs =
     (case join_all (hd dfs) (tl dfs) of Inl e \<Rightarrow> Inl e | Inr main \<Rightarrow> fill_km_total main)"

text \<open>
  \<open>pd.concat(frames, axis=1)\<close> for frames with the default index: the columns side by side,
  as many rows as the longest frame has, missing cells below a shorter one.
\<close>

definition concat_axis1 :: "frame list \<Rightarrow> frame" where
  "concat_axis1 fs =
     \<lparr>columns = concat (map columns fs),
      rows = map (\<lambda>n. concat (map (\<lambda>f. if n < length (rows f)
                                          then map (cell_at (rows f ! n)) [0..<length (columns f)]
                                          else replicate (length (columns f)) NaN) fs))
                 [0..<foldr (\<lambda>f m. max (length (rows f)) m) fs 0]\<rparr>"

text \<open>
  Lines 90 to 95. \<open>context_flat[c]\<close> is one column when the name \<open>c\<close> occurs once; when it
  occurs more than once it is a frame, \<open>.isna().all()\<close> is a Series of several booleans,
  and taking its truth value in the \<open>if\<close> raises \<open>ValueError\<close>.
\<close>

definition column_values :: "frame \<Rightarrow> nat \<Rightarrow> cell list" where
  "column_values f i = map (\<lambda>r. cell_at r i) (rows f)"

fun flatten_loop :: "frame \<Rightarrow> string list \<Rightarrow> frame \<Rightarrow> error + frame" where
  "flatten_loop context [] context_flat = Inr context_flat"
| "flatten_loop context (c # cs) context_flat =
     (case index_of c (columns context_flat) of
        None \<Rightarrow> flatten_loop context cs context_flat
      | Some i \<Rightarrow>
          if 1 < length (filter (\<lambda>d. d = c) (columns context_flat)) then Inl ValueError
          else if list_all isna (column_values context_flat i)
          then (case filter notna (column_values context i) of
                  [] \<Rightarrow> flatten_loop context cs context_flat
                | v # vs \<Rightarrow> flatten_loop context cs (assign_col c v context_flat))
          else flatten_loop context cs context_flat)"

definition flatten_context :: "frame list \<Rightarrow> error + frame" where
  "flatten_context ctxs =
     (if ctxs \<noteq> []
      then (let context = concat_axis1 ctxs
            in flatten_loop context (columns context)
                 \<lparr>columns = columns context, rows = take 1 (rows context)\<rparr>)
      else Inr empty_frame)"

text \<open>What became of a path: an extractor that raised ends \<open>merge_all\<close>.\<close>

fun outcome :: "(error + 'a) option \<Rightarrow> error + 'a option" where
  "outcome None = Inr None"
| "outcome (Some (Inl e)) = Inl e"
| "outcome (Some (Inr x)) = Inr (Some x)"

definition merge_frames ::
  "(frame \<times> frame) option \<Rightarrow> frame option \<Rightarrow> (frame \<times> frame) option \<Rightarrow> error + frame \<times> frame" where
  "merge_frames bv cf ct =
     (if main_dfs bv cf ct = [] then Inr (empty_frame, empty_frame)
      else (case merged_main (main_dfs bv cf ct) of
              Inl e \<Rightarrow> Inl e
            | Inr main \<Rightarrow>
                (case drop_duplicates join_keys main of
                   Inl e \<Rightarrow> Inl e
                 | Inr main' \<Rightarrow>
                     (case flatten_context (context_dfs bv ct) of
                        Inl e \<Rightarrow> Inl e
                      | Inr context_flat \<Rightarrow> Inr (main', context_flat)))))"

definition merge_all ::
  "(error + frame \<times> frame) option \<Rightarrow> (error + frame) option \<Rightarrow> (error + frame \<times> frame) option
    \<Rightarrow> error + frame \<times> frame" where
  "merge_all base_valores calculo cotacao =
     (case outcome base_valores of
        Inl e \<Rightarrow> Inl e
      | Inr bv \<Rightarrow>
          (case outcome calculo of
             Inl e \<Rightarrow> Inl e
           | Inr cf \<Rightarrow>
               (case outcome cotacao of
                  Inl e \<Rightarrow> Inl e
                | Inr ct \<Rightarrow> merge_frames bv cf ct)))"

section \<open>The extractors\<close>

text \<open>Running one step after another: the first exception ends the run.\<close>

definition bind_err :: "error + 'a \<Rightarrow> ('a \<Rightarrow> error + 'b) \<Rightarrow> error + 'b" where
  "bind_err x f = (case x of Inl e \<Rightarrow> Inl e | Inr a \<Rightarrow> f a)"

subsection \<open>The business days of the fixed-cost workbook\<close>





text \<open>Line 128 of \<open>read_base_valores\<close>: the band length of a row of the percentage sheet.\<close>

definition band_km_total :: "rat \<Rightarrow> rat \<Rightarrow> rat" where
  "band_km_total km_i km_f = (if km_f \<ge> km_i then km_f - km_i + 1 else 0)"

subsection \<open>The computed-freight workbook\<close>

definition SHEET_TO_VEHICLE :: "(string \<times> string) list" where
  "SHEET_TO_VEHICLE =
     [(''FIORINO_CS'', ''FIORINO - CARGA SECA''),
      (''FIORINO_CS_AG'', ''FIORINO - CARGA SECA''),
      (''VAN_CS'', ''VAN - CARGA SECA''),
      (''LEVE_CS'', ''LEVE - CARGA SECA''),
      (''TOCO_CS'', ''TOCO - CARGA SECA''),
      (''TRUCK_CS'', ''TRUCK - CARGA SECA''),
      (''CTA5_CS'', ''CARRETA 5 EIXOS - CARGA SECA''),
      (''CTA6_CS'', ''CARRETA 6 EIXOS - CARGA SECA''),
      (''VAN_CR'', ''VAN - REFRIGERADA''),
      (''LEVE_CR'', ''LEVE - REFRIGERADO''),
      (''TOCO_CR'', ''TOCO - REFRIGERADO''),
      (''TRUCK_CR'', ''TRUCK - REFRIGERADO''),
      (''CTA5_CR'', ''CARRETA 5 EIXOS - REFRIGERADA''),
      (''CTA6_CR'', ''CARRETA 6 EIXOS - REFRIGERADA'')]"

text \<open>\<open>float(row.iloc[i])\<close> and \<open>_num(row.iloc[i])\<close>.\<close>

definition float_at :: "(string \<Rightarrow> pyfloat option) \<Rightarrow> cell list \<Rightarrow> nat \<Rightarrow> error + pyfloat" where
  "float_at pf row i = bind_err (row_iloc row i) (py_float pf)"

definition num_at :: "(string \<Rightarrow> pyfloat option) \<Rightarrow> cell list \<Rightarrow> nat \<Rightarrow> error + cell" where
  "num_at pf row i = bind_err (row_iloc row i) (\<lambda>x. Inr (num pf x))"

text \<open>
  Lines 58 to 79 of \<open>read_calculo_frete.py\<close>, one data row of a vehicle sheet: \<open>None\<close> where
  the loop continues without a row. The three bounds are read inside the \<open>try\<close>; the six
  values of the record are read after it, where nothing is caught.
\<close>

definition sheet_row ::
  "(string \<Rightarrow> pyfloat option) \<Rightarrow> string \<Rightarrow> cell list \<Rightarrow> error + (string \<times> cell) list option" where
  "sheet_row pf vehicle row =
     (case bind_err (float_at pf row 9) (\<lambda>km_i.
           bind_err (float_at pf row 10) (\<lambda>km_f.
           bind_err (float_at pf row 11) (\<lambda>km_t. Inr (km_i, km_f, km_t)))) of
        Inl e \<Rightarrow> if e = TypeError \<or> e = ValueError \<or> e = IndexError then Inr None else Inl e
      | Inr (km_i, km_f, km_t) \<Rightarrow>
          if km_i = None \<or> km_f = None then Inr None
          else bind_err (num_at pf row 6) (\<lambda>diario.
               bind_err (num_at pf row 4) (\<lambda>mensal.
               bind_err (num_at pf row 5) (\<lambda>por_km.
               bind_err (num_at pf row 18) (\<lambda>entrega.
               bind_err (num_at pf row 19) (\<lambda>retorno.
               bind_err (num_at pf row 20) (\<lambda>viagem.
                 Inr (Some
                   [(''vehicle_type'', Str vehicle),
                    (''km_inicial'', cell_of_float km_i),
                    (''km_final'', cell_of_float km_f),
                    (''km_total'', cell_of_float km_t),
                    (''valor_dia_util_calculo'', diario),
                    (''mensal_calculo'', mensal),
                    (''por_km_calculo'', por_km),
                    (''frete_peso_entrega'', entrega),
                    (''frete_peso_retorno'', retorno),
                    (''frete_peso_viagem'', viagem)]))))))))"

fun sheet_rows ::
  "(string \<Rightarrow> pyfloat option) \<Rightarrow> string \<Rightarrow> cell list list \<Rightarrow> error + (string \<times> cell) list list" where
  "sheet_rows pf vehicle [] = Inr []"
| "sheet_rows pf vehicle (row # rest) =
     bind_err (sheet_row pf vehicle row) (\<lambda>d.
     bind_err (sheet_rows pf vehicle rest) (\<lambda>ds.
       Inr (case d of None \<Rightarrow> ds | Some d' \<Rightarrow> d' # ds)))"

text \<open>Lines 38 to 79: the loop over the sheet names of the workbook.\<close>

fun vehicle_sheets ::
  "(string \<Rightarrow> pyfloat option) \<Rightarrow> workbook \<Rightarrow> string list \<Rightarrow> error + (string \<times> cell) list list" where
  "vehicle_sheets pf xl [] = Inr []"
| "vehicle_sheets pf xl (sheet # rest) =
     (case map_of SHEET_TO_VEHICLE sheet of
        None \<Rightarrow> vehicle_sheets pf xl rest
      | Some vehicle \<Rightarrow>
          bind_err (read_excel xl sheet) (\<lambda>df.
            if nrows df < 2 \<or> ncols df < 12 then vehicle_sheets pf xl rest
            else bind_err (sheet_rows pf vehicle (drop 1 (iterrows df))) (\<lambda>ds.
                 bind_err (vehicle_sheets pf xl rest) (\<lambda>ds'. Inr (ds @ ds')))))"

text \<open>
  Lines 96 to 114: the \<open>while\<close> loop over the column groups of one data row of the
  consolidated sheet. The vehicle names are not in this repository's \<open>src\<close>:
  \<open>normalize_vehicle\<close> is the parameter \<open>nv\<close>, \<open>None\<close> where it finds no canonical name.
  \<open>if v\<close> holds for a name that is not empty.
\<close>

function geral_groups ::
  "(string \<Rightarrow> string option) \<Rightarrow> (string \<Rightarrow> pyfloat option) \<Rightarrow> grid \<Rightarrow> nat
    \<Rightarrow> pyfloat \<times> pyfloat \<times> pyfloat \<Rightarrow> nat \<Rightarrow> error + (string \<times> cell) list list" where
  "geral_groups nv pf df r km c =
     (if c + 2 < ncols df
      then bind_err (iloc df 2 (c + 1)) (\<lambda>vehicle_name.
           bind_err
             (case vehicle_name of
                Str name \<Rightarrow>
                  (case nv (strip name) of
                     None \<Rightarrow> Inr []
                   | Some v \<Rightarrow>
                       if v = [] then Inr []
                       else bind_err (iloc df r c) (\<lambda>x0.
                            bind_err (iloc df r (c + 1)) (\<lambda>x1.
                            bind_err (iloc df r (c + 2)) (\<lambda>x2.
                              Inr [[(''vehicle_type'', Str v),
                                    (''km_inicial'', cell_of_float (fst km)),
                                    (''km_final'', cell_of_float (fst (snd km))),
                                    (''km_total'', cell_of_float (snd (snd km))),
                                    (''valor_dia_util_calculo'', num pf x0),
                                    (''frete_peso_entrega'', num pf x0),
                                    (''frete_peso_retorno'', num pf x1),
                                    (''frete_peso_viagem'', num pf x2)]]))))
              | _ \<Rightarrow> Inr [])
             (\<lambda>ds. bind_err (geral_groups nv pf df r km (c + 3)) (\<lambda>ds'. Inr (ds @ ds'))))
      else Inr [])"
  by pat_completeness auto
termination
  by (relation "measure (\<lambda>(nv, pf, df, r, km, c). ncols df - c)") auto

declare geral_groups.simps [simp del]

text \<open>Lines 89 to 114: one data row of the consolidated sheet. Here the \<open>except\<close> clause names
  \<open>TypeError\<close> and \<open>ValueError\<close>.\<close>

definition geral_row ::
  "(string \<Rightarrow> string option) \<Rightarrow> (string \<Rightarrow> pyfloat option) \<Rightarrow> grid \<Rightarrow> nat
    \<Rightarrow> error + (string \<times> cell) list list" where
  "geral_row nv pf df r =
     (case bind_err (bind_err (iloc df r 1) (py_float pf)) (\<lambda>km_i.
           bind_err (bind_err (iloc df r 2) (py_float pf)) (\<lambda>km_f.
           bind_err (bind_err (iloc df r 3) (py_float pf)) (\<lambda>km_t. Inr (km_i, km_f, km_t)))) of
        Inl e \<Rightarrow> if e = TypeError \<or> e = ValueError then Inr [] else Inl e
      | Inr km \<Rightarrow> geral_groups nv pf df r km 4)"

fun geral_rows ::
  "(string \<Rightarrow> string option) \<Rightarrow> (string \<Rightarrow> pyfloat option) \<Rightarrow> grid \<Rightarrow> nat list
    \<Rightarrow> error + (string \<times> cell) list list" where
  "geral_rows nv pf df [] = Inr []"
| "geral_rows nv pf df (r # rest) =
     bind_err (geral_row nv pf df r) (\<lambda>ds.
     bind_err (geral_rows nv pf df rest) (\<lambda>ds'. Inr (ds @ ds')))"

definition read_calculo_frete ::
  "(string \<Rightarrow> string option) \<Rightarrow> (string \<Rightarrow> pyfloat option) \<Rightarrow> workbook \<Rightarrow> error + frame" where
  "read_calculo_frete nv pf xl =
     bind_err (vehicle_sheets pf xl (sheet_names xl)) (\<lambda>out_rows.
       if out_rows = []
       then bind_err (read_excel xl ''FRETE PESO - GERAL'') (\<lambda>df_geral.
              if nrows df_geral \<ge> 4 \<and> ncols df_geral \<ge> 5
              then bind_err (geral_rows nv pf df_geral [4..<nrows df_geral]) (\<lambda>ds.
                     Inr (DataFrame ds))
              else Inr (DataFrame []))
       else Inr (DataFrame out_rows))"

subsection \<open>The context record of the quotation workbook\<close>







subsection \<open>Stand-ins for the concrete examples\<close>

text \<open>
  The examples below need values for the parameters. \<open>normalize_van_only\<close> is a normalizer
  that knows one canonical name and resolves it to itself. \<open>plain_float\<close> reads a text of
  decimal digits and raises \<open>ValueError\<close> on any other text, and \<open>whole_text\<close> writes a whole
  number in decimal digits: on the texts and numbers of the examples they agree with
  Python's \<open>float\<close> and \<open>str\<close>.
\<close>

definition normalize_van_only :: "string \<Rightarrow> string option" where
  "normalize_van_only name =
     (if name = ''VAN - CARGA SECA'' then Some ''VAN - CARGA SECA'' else None)"

definition is_digit :: "char \<Rightarrow> bool" where
  "is_digit c = (48 \<le> (of_char c :: nat) \<and> (of_char c :: nat) \<le> 57)"

definition plain_float :: "string \<Rightarrow> pyfloat option" where
  "plain_float s =
     (if s \<noteq> [] \<and> list_all is_digit s
      then Some (Some (of_nat (foldl (\<lambda>n c. 10 * n + (of_char c - 48)) 0 s)))
      else None)"




section \<open>Notions used in the statements\<close>

subsection \<open>Rows, keys, markers and context fields\<close>

text \<open>
  The cell of a row under a column name (missing when the frame has no such column), the
  join key of a row, and frames whose rows are as long as the list of columns. A row is
  \<open>fillable\<close> when the backfill of \<open>merge_all\<close> applies to it: the frame has the column
  \<open>km_total\<close>, the row's \<open>km_total\<close> is missing and its two bounds are not.
\<close>

definition cell_of :: "frame \<Rightarrow> cell list \<Rightarrow> string \<Rightarrow> cell" where
  "cell_of f r c = (case index_of c (columns f) of None \<Rightarrow> NaN | Some i \<Rightarrow> cell_at r i)"

definition row_key :: "frame \<Rightarrow> cell list \<Rightarrow> cell list" where
  "row_key f r = map (cell_of f r) join_keys"

definition wf_frame :: "frame \<Rightarrow> bool" where
  "wf_frame f = list_all (\<lambda>r. length r = length (columns f)) (rows f)"

definition fillable :: "frame \<Rightarrow> cell list \<Rightarrow> bool" where
  "fillable f r = (''km_total'' \<in> set (columns f) \<and> isna (cell_of f r ''km_total'')
       \<and> notna (cell_of f r ''km_inicial'') \<and> notna (cell_of f r ''km_final''))"

text \<open>What \<open>assign_col\<close> does to one row, the three source-marker columns, and a frame
  without them.\<close>

definition mark_row :: "string \<Rightarrow> cell \<Rightarrow> frame \<Rightarrow> cell list \<Rightarrow> cell list" where
  "mark_row c v f r = (case index_of c (columns f) of Some i \<Rightarrow> r[i := v] | None \<Rightarrow> r @ [v])"

definition source_markers :: "string list" where
  "source_markers = [''_source_bv'', ''_source_cf'', ''_source_cot'']"

definition without_markers :: "frame \<Rightarrow> frame" where
  "without_markers f = drop_columns (\<lambda>c. c \<in> set source_markers) f"





subsection \<open>Example workbooks and tables for the merge engine\<close>

text \<open>
  Concrete workbooks and tables for the examples. In \<open>two_fiorino_sheets\<close> the sheets
  \<open>FIORINO_CS\<close> and \<open>FIORINO_CS_AG\<close>, which \<open>SHEET_TO_VEHICLE\<close> maps to the same vehicle, each
  hold one data row for the band from 0 to 100. In \<open>reversed_band_sheet\<close> the only data row
  has the bounds 10 and 5 and an empty \<open>KM TOTAL\<close> cell.
\<close>

definition two_fiorino_sheets :: workbook where
  "two_fiorino_sheets =
     [(''FIORINO_CS'',
        [[], replicate 9 NaN @ [Num 0, Num 100, Num 101] @ replicate 6 NaN @ [Num 1, Num 2, Num 3]]),
      (''FIORINO_CS_AG'',
        [[], replicate 9 NaN @ [Num 0, Num 100, Num 101] @ replicate 6 NaN @ [Num 4, Num 5, Num 6]])]"

definition reversed_band_sheet :: workbook where
  "reversed_band_sheet =
     [(''TRUCK_CS'', [[], replicate 9 NaN @ [Num 10, Num 5, NaN] @ replicate 9 NaN])]"

definition calculo_columns :: "string list" where
  "calculo_columns =
     [''vehicle_type'', ''km_inicial'', ''km_final'', ''km_total'', ''valor_dia_util_calculo'',
      ''mensal_calculo'', ''por_km_calculo'', ''frete_peso_entrega'', ''frete_peso_retorno'',
      ''frete_peso_viagem'']"

definition van_band_table :: frame where
  "van_band_table =
     DataFrame [[(''vehicle_type'', Str ''VAN - CARGA SECA''), (''km_inicial'', Num 0),
                 (''km_final'', Num 100), (''km_total'', Num 101), (''pct_frete_ida'', Num 5)]]"

subsection \<open>The consolidated layout as specified, and example workbooks of the extractors\<close>


text \<open>
  The consolidated layout as the specification describes it: the vehicle names stand in
  row 2, one for each group of three columns, the groups starting at column 4 (the name
  in the middle column of its group); the data rows start at row 4, with the band bounds
  in columns 1 to 3 and one triplet of values per group. A group gives a record when its
  name is a text that the normalizer resolves; a data row gives records when its three
  bounds convert to floats.
\<close>

definition grid_cell :: "grid \<Rightarrow> nat \<Rightarrow> nat \<Rightarrow> cell" where
  "grid_cell df r c = nth_default NaN (df ! r) c"

definition group_starts :: "grid \<Rightarrow> nat list" where
  "group_starts df = map (\<lambda>n. 4 + 3 * n) [0..<(ncols df - 4) div 3]"

definition km_bounds :: "(string \<Rightarrow> pyfloat option) \<Rightarrow> grid \<Rightarrow> nat \<Rightarrow> (pyfloat \<times> pyfloat \<times> pyfloat) option" where
  "km_bounds pf df r =
     (case (py_float pf (grid_cell df r 1), py_float pf (grid_cell df r 2), py_float pf (grid_cell df r 3)) of
        (Inr km_i, Inr km_f, Inr km_t) \<Rightarrow> Some (km_i, km_f, km_t)
      | _ \<Rightarrow> None)"

definition group_record ::
  "(string \<Rightarrow> string option) \<Rightarrow> (string \<Rightarrow> pyfloat option) \<Rightarrow> grid \<Rightarrow> nat
    \<Rightarrow> pyfloat \<times> pyfloat \<times> pyfloat \<Rightarrow> nat \<Rightarrow> (string \<times> cell) list list" where
  "group_record nv pf df r km c =
     (case grid_cell df 2 (c + 1) of
        Str name \<Rightarrow>
          (case nv (strip name) of
             None \<Rightarrow> []
           | Some v \<Rightarrow>
               if v = [] then []
               else [[(''vehicle_type'', Str v),
                      (''km_inicial'', cell_of_float (fst km)),
                      (''km_final'', cell_of_float (fst (snd km))),
                      (''km_total'', cell_of_float (snd (snd km))),
                      (''valor_dia_util_calculo'', num pf (grid_cell df r c)),
                      (''frete_peso_entrega'', num pf (grid_cell df r c)),
                      (''frete_peso_retorno'', num pf (grid_cell df r (c + 1))),
                      (''frete_peso_viagem'', num pf (grid_cell df r (c + 2)))]])
      | _ \<Rightarrow> [])"

definition fallback_records ::
  "(string \<Rightarrow> string option) \<Rightarrow> (string \<Rightarrow> pyfloat option) \<Rightarrow> grid \<Rightarrow> (string \<times> cell) list list" where
  "fallback_records nv pf df =
     (if 4 \<le> nrows df \<and> 5 \<le> ncols df
      then concat (map (\<lambda>r. case km_bounds pf df r of
                               None \<Rightarrow> []
                             | Some km \<Rightarrow> concat (map (group_record nv pf df r km) (group_starts df)))
                       [4..<nrows df])
      else [])"

text \<open>A workbook with the consolidated sheet alone: one name that resolves (written with
  blanks around it), one that does not, one data row, and one row whose first bound is
  not a number.\<close>

definition consolidated_only :: workbook where
  "consolidated_only =
     [(''FRETE PESO - GERAL'',
        [[Str ''FRETE PESO''],
         [Str ''FAIXA DE KM'', Str ''KM INICIAL'', Str ''KM FINAL'', Str ''KM TOTAL''],
         [NaN, NaN, NaN, NaN, NaN, Str '' VAN - CARGA SECA '', NaN, NaN, Str ''ZZZ'', NaN],
         [NaN, NaN, NaN, NaN, Str ''ENTREGA'', Str ''RETORNO'', Str ''TOTAL'',
          Str ''ENTREGA'', Str ''RETORNO'', Str ''TOTAL''],
         [Str ''0 - 100'', Num 0, Num 100, Num 101, Num 1, Num 2, Num 3, Num 4, Num 5, Num 6],
         [Str ''total'', Str ''abc'', Num 200, Num 100, Num 1, Num 2, Num 3, Num 4, Num 5, Num 6]])]"

text \<open>A workbook with none of the sheets the extractor looks for.\<close>

definition no_expected_sheets :: workbook where
  "no_expected_sheets = [(''Plan1'', [[Str ''x'']])]"

subsection \<open>The label scan as specified, and example workbooks\<close>








section \<open>The slug rule\<close>

lemma replace_Nil: "replace a b [] = []"
  by (simp add: replace_def)

lemma replace_Cons: "replace a b (c # s) = (if c = a then b else [c]) @ replace a b s"
  by (simp add: replace_def)

lemma replace_append: "replace a b (s @ t) = replace a b s @ replace a b t"
  by (simp add: replace_def)

lemma replace_concat_map:
  "replace a b (concat (map f t)) = concat (map (\<lambda>c. replace a b (f c)) t)"
  by (induction t) (simp_all add: replace_Nil replace_append)

lemma replace_as_concat: "replace a b t = concat (map (\<lambda>c. if c = a then b else [c]) t)"
  by (simp add: replace_def)

lemma slug_chain_char:
  "replace CHR ''.'' ''''
       (replace CHR '':'' ''''
       (replace CHR ''-'' ''_''
       (replace CHR '')'' ''''
       (replace CHR ''('' ''''
       (replace CHR ''/'' ''_''
       (replace CHR ''%'' ''pct''
       (if c = CHR '' '' then ''_'' else [c]))))))) = slug_char c"
  by (simp add: replace_Cons replace_Nil slug_char_def)

lemma slug_chain_concat:
  "replace CHR ''.'' ''''
       (replace CHR '':'' ''''
       (replace CHR ''-'' ''_''
       (replace CHR '')'' ''''
       (replace CHR ''('' ''''
       (replace CHR ''/'' ''_''
       (replace CHR ''%'' ''pct''
       (replace CHR '' '' ''_'' t))))))) = concat (map slug_char t)"
  by (simp only: replace_as_concat [of "CHR '' ''"] replace_concat_map slug_chain_char)

lemma slug_char_clean:
  "set (slug_char c) \<inter> set '' %/()-:.'' = {}"
  by (auto simp add: slug_char_def)

lemma concat_slug_char_clean:
  "set (concat (map slug_char t)) \<inter> set '' %/()-:.'' = {}"
proof (induction t)
  case Nil
  show ?case by simp
next
  case (Cons c t)
  have "set (concat (map slug_char (c # t))) = set (slug_char c) \<union> set (concat (map slug_char t))"
    by simp
  with Cons.IH slug_char_clean [of c] show ?case
    by (simp only: Int_Un_distrib2) simp
qed

text \<open>
  Claim C4 as worded: the slug is the label lowercased, with spaces mapped to underscores,
  the percent sign to \<open>pct\<close>, the characters \<open>/ ( ) : . -\<close> stripped and the result cut to 50
  characters. The source maps \<open>/\<close> and \<open>-\<close> to underscores instead of stripping them, so
  the two rules differ on the label \<open>a/b\<close>.
\<close>

theorem slug_not_spec_counterexample:
  "slug ''a/b'' \<noteq> slug_spec ''a/b''"
  by (simp add: slug_def slug_spec_def replace_def lower_def lower_char_def)

text \<open>
  Claim C4, amended: the slug of a label is its lowercase form in which every space, slash
  and hyphen has become an underscore, every percent sign the text \<open>pct\<close>, and every
  parenthesis, colon and full stop has been removed, cut to at most 50 characters; the slug
  is a function of the label alone, is never longer than 50 characters and holds none of
  the characters space, \<open>%\<close>, \<open>/\<close>, \<open>(\<close>, \<open>)\<close>, \<open>-\<close>, \<open>:\<close>, \<open>.\<close>.
\<close>

theorem slug_characterisation:
  "slug s = take 50 (concat (map slug_char (lower s)))
   \<and> length (slug s) \<le> 50
   \<and> set (slug s) \<inter> set '' %/()-:.'' = {}"
proof -
  have eq: "slug s = take 50 (concat (map slug_char (lower s)))"
    unfolding slug_def by (simp only: slug_chain_concat)
  have len: "length (slug s) \<le> 50"
    by (simp add: slug_def)
  have "set (slug s) \<subseteq> set (concat (map slug_char (lower s)))"
    unfolding eq by (rule set_take_subset)
  with concat_slug_char_clean [of "lower s"]
  have clean: "set (slug s) \<inter> set '' %/()-:.'' = {}"
    by blast
  from eq len clean show ?thesis by simp
qed

section \<open>Properties of the merge engine\<close>

lemma keep_first_notin: "x \<in> set (keep_first f seen xs) \<Longrightarrow> f x \<notin> set seen"
  by (induction xs arbitrary: seen) (fastforce split: if_splits)+

lemma keep_first_distinct: "distinct (map f (keep_first f seen xs))"
proof (induction xs arbitrary: seen)
  case Nil
  show ?case by simp
next
  case (Cons x xs)
  show ?case
  proof (cases "f x \<in> set seen")
    case True
    then show ?thesis using Cons.IH by simp
  next
    case False
    have "f x \<notin> f ` set (keep_first f (f x # seen) xs)"
    proof
      assume "f x \<in> f ` set (keep_first f (f x # seen) xs)"
      then obtain y where y: "y \<in> set (keep_first f (f x # seen) xs)" and fy: "f y = f x"
        by force
      from keep_first_notin [OF y] fy show False by simp
    qed
    with False show ?thesis using Cons.IH by simp
  qed
qed

lemma keep_first_find:
  "find (\<lambda>x. f x = k) (keep_first f seen xs) = (if k \<in> set seen then None else find (\<lambda>x. f x = k) xs)"
proof (induction xs arbitrary: seen)
  case Nil
  show ?case by simp
next
  case (Cons x xs)
  show ?case
    by (cases "f x \<in> set seen") (auto simp: Cons.IH)
qed

lemma key_indices_key_of:
  "key_indices cs ks = Inr ixs \<Longrightarrow> key_of ixs r = map (\<lambda>c. case index_of c cs of None \<Rightarrow> NaN | Some i \<Rightarrow> cell_at r i) ks"
  by (induction ks arbitrary: ixs) (auto simp: key_of_def split: option.splits sum.splits)

lemma row_key_key_of:
  "key_indices (columns f) join_keys = Inr ixs \<Longrightarrow> row_key f = key_of ixs"
  by (rule ext) (simp add: row_key_def cell_of_def key_indices_key_of)

lemma drop_duplicates_distinct:
  assumes "drop_duplicates join_keys T = Inr main"
  shows "distinct (map (row_key main) (rows main))"
    and "columns main = columns T"
    and "find (\<lambda>r. row_key T r = k) (rows main) = find (\<lambda>r. row_key T r = k) (rows T)"
proof -
  from assms obtain ixs where ix: "key_indices (columns T) join_keys = Inr ixs"
    and main: "main = \<lparr>columns = columns T, rows = keep_first (key_of ixs) [] (rows T)\<rparr>"
    by (auto simp: drop_duplicates_def split: sum.splits)
  show c: "columns main = columns T" by (simp add: main)
  have rk: "row_key main = key_of ixs" "row_key T = key_of ixs"
    using ix c by (simp_all add: row_key_key_of)
  have r: "rows main = keep_first (key_of ixs) [] (rows T)" by (simp add: main)
  show "distinct (map (row_key main) (rows main))"
    unfolding rk r by (rule keep_first_distinct)
  show "find (\<lambda>r. row_key T r = k) (rows main) = find (\<lambda>r. row_key T r = k) (rows T)"
    unfolding rk r by (simp add: keep_first_find)
qed

lemma merge_frames_empty:
  "main_dfs bv cf ct = [] \<Longrightarrow> merge_frames bv cf ct = Inr (empty_frame, empty_frame)"
  by (simp add: merge_frames_def)

lemma index_of_None: "index_of x xs = None \<longleftrightarrow> x \<notin> set xs"
  by (induction xs) auto

lemma index_of_Some: "index_of x xs = Some i \<Longrightarrow> i < length xs \<and> xs ! i = x"
  by (induction xs arbitrary: i) (auto split: if_splits)

lemma index_of_append: "x \<in> set xs \<Longrightarrow> index_of x (xs @ ys) = index_of x xs"
  by (induction xs) auto

lemma key_indices_total: "set ks \<subseteq> set cs \<Longrightarrow> \<exists>ixs. key_indices cs ks = Inr ixs"
proof (induction ks)
  case Nil
  show ?case by simp
next
  case (Cons k ks)
  then obtain ixs where "key_indices cs ks = Inr ixs" by auto
  moreover from Cons.prems obtain i where "index_of k cs = Some i"
    using index_of_None [of k cs] by (cases "index_of k cs") auto
  ultimately show ?case by simp
qed

lemma keep_first_id:
  "distinct (map f xs) \<Longrightarrow> f ` set xs \<inter> set seen = {} \<Longrightarrow> keep_first f seen xs = xs"
proof (induction xs arbitrary: seen)
  case Nil
  show ?case by simp
next
  case (Cons x xs)
  from Cons.prems have "f x \<notin> set seen" by auto
  moreover from Cons.prems have "keep_first f (f x # seen) xs = xs"
    by (intro Cons.IH) auto
  ultimately show ?case by simp
qed

lemma fill_rows_id:
  "list_all (\<lambda>r. \<not> (isna (cell_at r t) \<and> notna (cell_at r i) \<and> notna (cell_at r j))) rs
    \<Longrightarrow> fill_rows t i j rs = Inr rs"
  by (induction rs) auto

text \<open>Adding a marker column leaves every other column as it was.\<close>

lemma assign_col_columns_index:
  "k \<noteq> c \<Longrightarrow> index_of k (columns (assign_col c v f)) = index_of k (columns f)"
proof (cases "index_of c (columns f)")
  case None
  assume kc: "k \<noteq> c"
  have cols: "columns (assign_col c v f) = columns f @ [c]"
    using None by (simp add: assign_col_def)
  show ?thesis
  proof (cases "k \<in> set (columns f)")
    case True
    then show ?thesis by (simp add: cols index_of_append)
  next
    case False
    with kc have "index_of k (columns f @ [c]) = None" "index_of k (columns f) = None"
      by (simp_all add: index_of_None)
    then show ?thesis by (simp add: cols)
  qed
next
  case (Some i)
  then show ?thesis by (simp add: assign_col_def)
qed

lemma assign_col_rows: "rows (assign_col c v f) = map (mark_row c v f) (rows f)"
  by (simp add: assign_col_def mark_row_def split: option.splits)

lemma cell_of_mark_row:
  assumes "k \<noteq> c" and "length r = length (columns f)"
  shows "cell_of (assign_col c v f) (mark_row c v f r) k = cell_of f r k"
proof (cases "index_of k (columns f)")
  case None
  with assms show ?thesis by (simp add: cell_of_def assign_col_columns_index)
next
  case (Some i)
  then have i: "i < length (columns f)" "columns f ! i = k" using index_of_Some by fastforce+
  have "cell_at (mark_row c v f r) i = cell_at r i"
  proof (cases "index_of c (columns f)")
    case None
    with i assms show ?thesis by (simp add: mark_row_def cell_at_def nth_default_def nth_append)
  next
    case (Some ic)
    then have "columns f ! ic = c" using index_of_Some by fastforce
    with i assms have "ic \<noteq> i" by auto
    with Some show ?thesis by (simp add: mark_row_def cell_at_def nth_default_def)
  qed
  with Some assms show ?thesis by (simp add: cell_of_def assign_col_columns_index)
qed

lemma single_table:
  assumes wf: "wf_frame m"
    and keys: "set join_keys \<subseteq> set (columns m)"
    and dist: "distinct (map (row_key m) (rows m))"
    and nofill: "list_all (\<lambda>r. \<not> fillable m r) (rows m)"
    and c: "c \<notin> set join_keys" "c \<noteq> ''km_total''"
  shows "merged_main [assign_col c v m] = Inr (assign_col c v m)"
    and "drop_duplicates join_keys (assign_col c v m) = Inr (assign_col c v m)"
proof -
  let ?m = "assign_col c v m"
  have cell: "cell_of ?m (mark_row c v m r) k = cell_of m r k" if "r \<in> set (rows m)" "k \<noteq> c" for r k
    using that wf cell_of_mark_row [of k c r m v] by (simp add: wf_frame_def list_all_iff)
  have kcols: "set join_keys \<subseteq> set (columns ?m)"
    using keys by (auto simp: assign_col_def split: option.splits)
  have fill: "fill_km_total ?m = Inr ?m"
  proof (cases "index_of ''km_total'' (columns ?m)")
    case None
    then show ?thesis by (simp add: fill_km_total_def)
  next
    case (Some t)
    from kcols obtain i j where ij: "index_of ''km_inicial'' (columns ?m) = Some i"
      "index_of ''km_final'' (columns ?m) = Some j"
      using index_of_None [of "''km_inicial''" "columns ?m"] index_of_None [of "''km_final''" "columns ?m"]
      by (auto simp: join_keys_def)
    from Some c have t: "''km_total'' \<in> set (columns m)"
      using index_of_None [of "''km_total''" "columns m"] by (simp add: assign_col_columns_index)
    have "\<not> (isna (cell_at r' t) \<and> notna (cell_at r' i) \<and> notna (cell_at r' j))"
      if "r' \<in> set (rows ?m)" for r'
    proof -
      from that obtain r where r: "r \<in> set (rows m)" "r' = mark_row c v m r"
        by (auto simp: assign_col_rows)
      from nofill r have "\<not> fillable m r" by (simp add: list_all_iff)
      moreover have ne: "''km_total'' \<noteq> c" "''km_inicial'' \<noteq> c" "''km_final'' \<noteq> c"
        using c by (auto simp: join_keys_def)
      have "cell_at r' t = cell_of m r ''km_total''" "cell_at r' i = cell_of m r ''km_inicial''"
        "cell_at r' j = cell_of m r ''km_final''"
        using cell [OF r(1) ne(1)] cell [OF r(1) ne(2)] cell [OF r(1) ne(3)] Some ij r(2)
        by (simp_all add: cell_of_def)
      ultimately show ?thesis using t by (simp add: fillable_def)
    qed
    then have "fill_rows t i j (rows ?m) = Inr (rows ?m)"
      by (intro fill_rows_id) (simp add: list_all_iff)
    with Some ij show ?thesis by (simp add: fill_km_total_def)
  qed
  then show "merged_main [?m] = Inr ?m" by (simp add: merged_main_def)
  from key_indices_total [OF kcols] obtain ixs where ixs: "key_indices (columns ?m) join_keys = Inr ixs" ..
  have "row_key ?m (mark_row c v m r) = row_key m r" if "r \<in> set (rows m)" for r
  proof -
    have "cell_of ?m (mark_row c v m r) k = cell_of m r k" if "k \<in> set join_keys" for k
    proof -
      from that c(1) have "k \<noteq> c" by blast
      then show ?thesis by (rule cell [OF \<open>r \<in> set (rows m)\<close>])
    qed
    then show ?thesis unfolding row_key_def by (intro map_cong refl)
  qed
  then have "map (row_key ?m) (rows ?m) = map (row_key m) (rows m)"
    by (simp add: assign_col_rows)
  with dist have "distinct (map (key_of ixs) (rows ?m))"
    by (simp add: row_key_key_of [OF ixs])
  then have "keep_first (key_of ixs) [] (rows ?m) = rows ?m"
    by (intro keep_first_id) simp_all
  with ixs show "drop_duplicates join_keys ?m = Inr ?m"
    by (simp add: drop_duplicates_def)
qed

lemma drop_columns_assign_col:
  assumes wf: "wf_frame m" and pc: "p c" and np: "list_all (\<lambda>k. \<not> p k) (columns m)"
  shows "drop_columns p (assign_col c v m) = m"
proof -
  let ?n = "length (columns m)"
  from pc np have "c \<notin> set (columns m)" by (auto simp: list_all_iff)
  then have a: "assign_col c v m = \<lparr>columns = columns m @ [c], rows = map (\<lambda>r. r @ [v]) (rows m)\<rparr>"
    using index_of_None [of c "columns m"] by (simp add: assign_col_def)
  have keep: "filter (\<lambda>i. \<not> p ((columns m @ [c]) ! i)) [0..<length (columns m @ [c])] = [0..<?n]"
  proof -
    have "filter (\<lambda>i. \<not> p ((columns m @ [c]) ! i)) [0..<?n] = [0..<?n]"
      using np by (intro filter_True) (auto simp: list_all_iff nth_append)
    with pc show ?thesis by simp
  qed
  have cols: "map (\<lambda>i. (columns m @ [c]) ! i) [0..<?n] = columns m"
    by (intro nth_equalityI) (simp_all add: nth_append)
  have row: "map (cell_at (r @ [v])) [0..<?n] = r" if "r \<in> set (rows m)" for r
  proof -
    from that wf have "length r = ?n" by (simp add: wf_frame_def list_all_iff)
    then show ?thesis
      by (intro nth_equalityI) (simp_all add: cell_at_def nth_default_def nth_append)
  qed
  have rws: "map (\<lambda>r. map (cell_at r) [0..<?n]) (map (\<lambda>r. r @ [v]) (rows m)) = rows m"
    using row by (simp add: map_idI)
  have "drop_columns p (assign_col c v m)
        = \<lparr>columns = map (\<lambda>i. (columns m @ [c]) ! i) [0..<?n],
           rows = map (\<lambda>r. map (cell_at r) [0..<?n]) (map (\<lambda>r. r @ [v]) (rows m))\<rparr>"
    by (simp only: drop_columns_def a Let_def frame.select_convs keep)
  then show ?thesis
    by (simp only: cols rws) simp
qed

lemma flatten_loop_total:
  "distinct (columns context_flat) \<Longrightarrow>
     \<exists>f. flatten_loop context cs context_flat = Inr f \<and> columns f = columns context_flat"
proof (induction cs arbitrary: context_flat)
  case Nil
  show ?case by simp
next
  case (Cons c cs)
  show ?case
  proof (cases "index_of c (columns context_flat)")
    case None
    with Cons show ?thesis by simp
  next
    case (Some i)
    have "card ({x. x = c} \<inter> set (columns context_flat)) \<le> card {c}"
      by (intro card_mono) auto
    then have one: "\<not> 1 < length (filter (\<lambda>d. d = c) (columns context_flat))"
      using Cons.prems by (simp add: distinct_length_filter)
    have cols: "columns (assign_col c v context_flat) = columns context_flat" for v
      using Some by (simp add: assign_col_def)
    show ?thesis
      using Some one Cons.IH [OF Cons.prems] Cons.IH [of "assign_col c v context_flat" for v] Cons.prems cols
      by (auto split: list.splits)
  qed
qed

lemma flatten_context_single:
  "distinct (columns ctx) \<Longrightarrow> \<exists>c. flatten_context [ctx] = Inr c"
proof -
  assume d: "distinct (columns ctx)"
  have "columns (concat_axis1 [ctx]) = columns ctx" by (simp add: concat_axis1_def)
  with d flatten_loop_total [of "\<lparr>columns = columns (concat_axis1 [ctx]), rows = take 1 (rows (concat_axis1 [ctx]))\<rparr>"
      "concat_axis1 [ctx]" "columns (concat_axis1 [ctx])"]
  show ?thesis by (auto simp: flatten_context_def Let_def)
qed

lemma main_dfs_single:
  "main_dfs (Some (m, ctx)) None None = [assign_col ''_source_bv'' (Bool True) m]"
  "\<not> df_empty m \<Longrightarrow> main_dfs None (Some m) None = [assign_col ''_source_cf'' (Bool True) m]"
  "\<not> df_empty m \<Longrightarrow> main_dfs None None (Some (m, ctx)) = [assign_col ''_source_cot'' (Bool True) m]"
  by (simp_all add: main_dfs_def)













section \<open>Claims about the merge engine\<close>

text \<open>
  Claim C6: when no source file is present, and more generally when no source produces
  main rows, \<open>merge_all\<close> returns two empty tables and does not raise. The fixed-cost
  table is appended whenever its file is present (line 34), so no source produces main
  rows when that file is absent and each of the other two files is absent or gives an
  empty main table.
\<close>

theorem merge_all_no_main_rows:
  assumes "calculo = None \<or> (\<exists>cf_main. calculo = Some (Inr cf_main) \<and> df_empty cf_main)"
    and "cotacao = None \<or> (\<exists>cot_main cot_ctx. cotacao = Some (Inr (cot_main, cot_ctx)) \<and> df_empty cot_main)"
  shows "merge_all None None None = Inr (empty_frame, empty_frame)
         \<and> merge_all None calculo cotacao = Inr (empty_frame, empty_frame)"
proof -
  have zero: "merge_all None None None = Inr (empty_frame, empty_frame)"
    by (simp add: merge_all_def merge_frames_def main_dfs_def)
  from assms obtain cf ct where cf: "outcome calculo = Inr cf" and ct: "outcome cotacao = Inr ct"
    and none: "main_dfs None cf ct = []"
    by (auto simp: main_dfs_def)
  have "merge_all None calculo cotacao = merge_frames None cf ct"
    by (simp add: merge_all_def cf ct)
  with none zero show ?thesis
    by (simp add: merge_frames_empty)
qed

theorem merge_all_no_main_rows_witness:
  "merge_all None None None = Inr (empty_frame, empty_frame)
   \<and> merge_all None (Some (Inr (DataFrame [])))
        (Some (Inr (\<lparr>columns = [''km_inicial'', ''km_final'', ''km_total'', ''source''], rows = []\<rparr>,
                    DataFrame [[(''cliente'', Str ''X'')]])))
      = Inr (empty_frame, empty_frame)"
  by (rule merge_all_no_main_rows) (simp_all add: df_empty_def DataFrame_def uniq_def)

text \<open>
  Claim C2: the FactTable that \<open>merge_all\<close> returns has no two rows with the same
  \<open>(vehicle_type, km_inicial, km_final)\<close> key, and of the rows of the joined table that
  share a key the first is the one kept: for every key, looking the key up in the
  FactTable and in the joined table (after the \<open>km_total\<close> backfill) finds the same row.
\<close>

theorem merge_all_unique_keys:
  assumes "merge_all base_valores calculo cotacao = Inr (main, context)"
  shows "distinct (map (row_key main) (rows main))
         \<and> (\<forall>bv cf ct T k.
               outcome base_valores = Inr bv \<and> outcome calculo = Inr cf \<and> outcome cotacao = Inr ct
               \<and> main_dfs bv cf ct \<noteq> [] \<and> merged_main (main_dfs bv cf ct) = Inr T
               \<longrightarrow> columns main = columns T
                   \<and> find (\<lambda>r. row_key T r = k) (rows main) = find (\<lambda>r. row_key T r = k) (rows T))"
proof -
  from assms obtain bv cf ct where o: "outcome base_valores = Inr bv" "outcome calculo = Inr cf"
    "outcome cotacao = Inr ct" and mf: "merge_frames bv cf ct = Inr (main, context)"
    by (auto simp: merge_all_def split: sum.splits)
  show ?thesis
  proof (cases "main_dfs bv cf ct = []")
    case True
    with mf have "main = empty_frame" by (simp add: merge_frames_def)
    with True o show ?thesis by (simp add: empty_frame_def)
  next
    case False
    with mf obtain T where T: "merged_main (main_dfs bv cf ct) = Inr T"
      and dd: "drop_duplicates join_keys T = Inr main"
      by (auto simp: merge_frames_def split: sum.splits)
    from drop_duplicates_distinct [OF dd] o T show ?thesis by auto
  qed
qed

theorem merge_all_unique_keys_witness:
  "merge_all None (Some (read_calculo_frete normalize_van_only plain_float two_fiorino_sheets)) None
   = Inr (\<lparr>columns = calculo_columns @ [''_source_cf''],
           rows = [[Str ''FIORINO - CARGA SECA'', Num 0, Num 100, Num 101, NaN, NaN, NaN,
                    Num 1, Num 2, Num 3, Bool True]]\<rparr>, empty_frame)
   \<and> distinct (map (row_key \<lparr>columns = calculo_columns @ [''_source_cf''],
           rows = [[Str ''FIORINO - CARGA SECA'', Num 0, Num 100, Num 101, NaN, NaN, NaN,
                    Num 1, Num 2, Num 3, Bool True]]\<rparr>)
        [[Str ''FIORINO - CARGA SECA'', Num 0, Num 100, Num 101, NaN, NaN, NaN,
          Num 1, Num 2, Num 3, Bool True]])"
proof -
  have e: "merge_all None (Some (read_calculo_frete normalize_van_only plain_float two_fiorino_sheets)) None
   = Inr (\<lparr>columns = calculo_columns @ [''_source_cf''],
           rows = [[Str ''FIORINO - CARGA SECA'', Num 0, Num 100, Num 101, NaN, NaN, NaN,
                    Num 1, Num 2, Num 3, Bool True]]\<rparr>, empty_frame)"
    by code_simp
  from merge_all_unique_keys [OF e] e show ?thesis by simp
qed

text \<open>
  Claim C7 as worded: with a single source present, the FactTable equals, up to the
  source-marker columns, the main table of that source's extractor. The two sheets of
  \<open>two_fiorino_sheets\<close> give the extractor two rows with the same key, of which
  \<open>merge_all\<close> keeps one.
\<close>

theorem single_source_counterexample:
  "map_sum id (without_markers \<circ> fst)
     (merge_all None (Some (read_calculo_frete normalize_van_only plain_float two_fiorino_sheets)) None)
   \<noteq> read_calculo_frete normalize_van_only plain_float two_fiorino_sheets"
  by code_simp

text \<open>
  Claim C7, amended: with a single source present whose extracted main table has the
  three key columns, no two rows with the same key and no row in which \<open>km_total\<close> is
  missing while both bounds are present (and, for the computed-freight and quotation
  sources, is not empty), the FactTable is the extracted table with the source-marker
  column added, and so equals it up to the source-marker columns.
\<close>

theorem single_source_fact_table:
  assumes wf: "wf_frame m"
    and keys: "set join_keys \<subseteq> set (columns m)"
    and dist: "distinct (map (row_key m) (rows m))"
    and nofill: "list_all (\<lambda>r. \<not> fillable m r) (rows m)"
    and nomark: "list_all (\<lambda>c. c \<notin> set source_markers) (columns m)"
    and ctx: "distinct (columns ctx)"
  shows "(\<exists>c. merge_all (Some (Inr (m, ctx))) None None = Inr (assign_col ''_source_bv'' (Bool True) m, c))
       \<and> (\<not> df_empty m \<longrightarrow>
            merge_all None (Some (Inr m)) None = Inr (assign_col ''_source_cf'' (Bool True) m, empty_frame))
       \<and> (\<not> df_empty m \<longrightarrow>
            (\<exists>c. merge_all None None (Some (Inr (m, ctx))) = Inr (assign_col ''_source_cot'' (Bool True) m, c)))
       \<and> without_markers (assign_col ''_source_bv'' (Bool True) m) = m
       \<and> without_markers (assign_col ''_source_cf'' (Bool True) m) = m
       \<and> without_markers (assign_col ''_source_cot'' (Bool True) m) = m"
proof -
  have st: "merged_main [assign_col c (Bool True) m] = Inr (assign_col c (Bool True) m)"
      "drop_duplicates join_keys (assign_col c (Bool True) m) = Inr (assign_col c (Bool True) m)"
    if "c \<in> set source_markers" for c
    using single_table [OF wf keys dist nofill, of c "Bool True"] that
    by (auto simp: source_markers_def join_keys_def)
  from flatten_context_single [OF ctx] obtain c where c: "flatten_context [ctx] = Inr c" ..
  have bv: "merge_all (Some (Inr (m, ctx))) None None = Inr (assign_col ''_source_bv'' (Bool True) m, c)"
    using st [of "''_source_bv''"] c
    by (simp add: merge_all_def merge_frames_def main_dfs_single context_dfs_def source_markers_def)
  have cf: "merge_all None (Some (Inr m)) None = Inr (assign_col ''_source_cf'' (Bool True) m, empty_frame)"
    if "\<not> df_empty m"
    using st [of "''_source_cf''"] that
    by (simp add: merge_all_def merge_frames_def main_dfs_single context_dfs_def source_markers_def
        flatten_context_def)
  have ct: "merge_all None None (Some (Inr (m, ctx))) = Inr (assign_col ''_source_cot'' (Bool True) m, c)"
    if "\<not> df_empty m"
    using st [of "''_source_cot''"] c that
    by (simp add: merge_all_def merge_frames_def main_dfs_single context_dfs_def source_markers_def)
  have wm: "without_markers (assign_col k (Bool True) m) = m" if "k \<in> set source_markers" for k
    unfolding without_markers_def
    using wf that nomark by (intro drop_columns_assign_col) simp_all
  from bv cf ct wm [of "''_source_bv''"] wm [of "''_source_cf''"] wm [of "''_source_cot''"]
  show ?thesis by (simp add: source_markers_def)
qed

theorem single_source_fact_table_witness:
  "merge_all None (Some (Inr van_band_table)) None
     = Inr (assign_col ''_source_cf'' (Bool True) van_band_table, empty_frame)
   \<and> assign_col ''_source_cf'' (Bool True) van_band_table
     = \<lparr>columns = [''vehicle_type'', ''km_inicial'', ''km_final'', ''km_total'', ''pct_frete_ida'',
                    ''_source_cf''],
        rows = [[Str ''VAN - CARGA SECA'', Num 0, Num 100, Num 101, Num 5, Bool True]]\<rparr>
   \<and> without_markers (assign_col ''_source_cf'' (Bool True) van_band_table) = van_band_table"
proof -
  have h: "wf_frame van_band_table" "set join_keys \<subseteq> set (columns van_band_table)"
    "distinct (map (row_key van_band_table) (rows van_band_table))"
    "list_all (\<lambda>r. \<not> fillable van_band_table r) (rows van_band_table)"
    "list_all (\<lambda>c. c \<notin> set source_markers) (columns van_band_table)"
    "distinct (columns (DataFrame [[(''dias_uteis'', Num 24)]]))"
    by code_simp+
  have ne: "\<not> df_empty van_band_table" by code_simp
  have v: "assign_col ''_source_cf'' (Bool True) van_band_table
     = \<lparr>columns = [''vehicle_type'', ''km_inicial'', ''km_final'', ''km_total'', ''pct_frete_ida'',
                    ''_source_cf''],
        rows = [[Str ''VAN - CARGA SECA'', Num 0, Num 100, Num 101, Num 5, Bool True]]\<rparr>"
    by code_simp
  from single_source_fact_table [OF h] ne v show ?thesis by simp
qed

text \<open>
  The two rules for a missing \<open>km_total\<close>. The backfill of \<open>merge_all\<close> gives every row
  whose \<open>km_total\<close> is missing and whose bounds are numbers the value
  \<open>km_final - km_inicial + 1\<close>; the rule of \<open>read_base_valores\<close> gives 0 when the bounds are
  reversed, and so never a negative value.
\<close>

lemma fill_rows_backfill:
  assumes "fill_rows t i j rs = Inr rs'" and "n < length rs"
    and "cell_at (rs ! n) t = NaN" and "cell_at (rs ! n) i = Num a" and "cell_at (rs ! n) j = Num b"
  shows "rs' ! n = (rs ! n)[t := Num (b - a + 1)]"
  using assms
proof (induction rs arbitrary: rs' n)
  case Nil
  then show ?case by simp
next
  case (Cons r rs)
  show ?case
  proof (cases n)
    case 0
    with Cons.prems show ?thesis
      by (auto simp: isna_def notna_def bind_err_def split: sum.splits)
  next
    case (Suc m)
    from Cons.prems(1) obtain r' rs'' where s: "rs' = r' # rs''" "fill_rows t i j rs = Inr rs''"
      by (auto split: if_splits sum.splits)
    from Cons.IH [OF s(2), of m] Cons.prems Suc s(1) show ?thesis by simp
  qed
qed

lemma band_km_total_not_negative: "0 \<le> band_km_total km_i km_f"
  by (simp add: band_km_total_def)

lemma band_km_total_valid: "km_i \<le> km_f \<Longrightarrow> band_km_total km_i km_f = km_f - km_i + 1"
  by (simp add: band_km_total_def)

text \<open>
  Claim C1: a merged row whose \<open>km_total\<close> is missing and whose bounds are present gets
  \<open>km_total = km_final - km_inicial + 1\<close>, and a row with \<open>km_final < km_inicial\<close> never gets a
  negative \<open>km_total\<close>. The backfill of \<open>merge_all\<close> (lines 74 to 78) applies the rule without
  comparing the bounds, unlike line 128 of \<open>read_base_valores\<close>: for the workbook
  \<open>reversed_band_sheet\<close> the FactTable holds \<open>km_total = -4\<close>.
\<close>

theorem backfill_negative_km_total:
  "merge_all None (Some (read_calculo_frete normalize_van_only plain_float reversed_band_sheet)) None
   = Inr (\<lparr>columns = calculo_columns @ [''_source_cf''],
           rows = [[Str ''TRUCK - CARGA SECA'', Num 10, Num 5, Num (- 4), NaN, NaN, NaN,
                    NaN, NaN, NaN, Bool True]]\<rparr>, empty_frame)"
  by code_simp




section \<open>Claims about the extractors\<close>

subsection \<open>The business days\<close>

lemma py_float_error: "py_float pf v = Inl e \<Longrightarrow> e = ValueError"
  by (cases v) (auto split: option.splits)







subsection \<open>The consolidated sheet of the computed-freight workbook\<close>

lemma iloc_in_range: "r < nrows df \<Longrightarrow> c < ncols df \<Longrightarrow> iloc df r c = Inr (grid_cell df r c)"
  by (simp add: iloc_def grid_cell_def)

lemma bind_err_Inr [simp]: "bind_err (Inr a) f = f a"
  by (simp add: bind_err_def)

lemma bind_err_Inl [simp]: "bind_err (Inl e) f = Inl e"
  by (simp add: bind_err_def)

lemma group_step:
  assumes "r < nrows df" and "2 < nrows df" and "c + 2 < ncols df"
  shows "geral_groups nv pf df r km c
         = bind_err (geral_groups nv pf df r km (c + 3)) (\<lambda>ds'. Inr (group_record nv pf df r km c @ ds'))"
proof -
  have i: "iloc df 2 (c + 1) = Inr (grid_cell df 2 (c + 1))" "iloc df r c = Inr (grid_cell df r c)"
    "iloc df r (c + 1) = Inr (grid_cell df r (c + 1))" "iloc df r (c + 2) = Inr (grid_cell df r (c + 2))"
    using assms by (simp_all add: iloc_in_range)
  have u: "geral_groups nv pf df r km c
           = bind_err
             (case grid_cell df 2 (c + 1) of
                Str name \<Rightarrow>
                  (case nv (strip name) of
                     None \<Rightarrow> Inr []
                   | Some v \<Rightarrow>
                       if v = [] then Inr []
                       else Inr [[(''vehicle_type'', Str v),
                                    (''km_inicial'', cell_of_float (fst km)),
                                    (''km_final'', cell_of_float (fst (snd km))),
                                    (''km_total'', cell_of_float (snd (snd km))),
                                    (''valor_dia_util_calculo'', num pf (grid_cell df r c)),
                                    (''frete_peso_entrega'', num pf (grid_cell df r c)),
                                    (''frete_peso_retorno'', num pf (grid_cell df r (c + 1))),
                                    (''frete_peso_viagem'', num pf (grid_cell df r (c + 2)))]])
              | _ \<Rightarrow> Inr [])
             (\<lambda>ds. bind_err (geral_groups nv pf df r km (c + 3)) (\<lambda>ds'. Inr (ds @ ds')))"
    by (subst geral_groups.simps) (simp only: i assms(3) if_True bind_err_Inr)
  have g: "(case grid_cell df 2 (c + 1) of
                Str name \<Rightarrow>
                  (case nv (strip name) of
                     None \<Rightarrow> Inr []
                   | Some v \<Rightarrow>
                       if v = [] then Inr []
                       else Inr [[(''vehicle_type'', Str v),
                                    (''km_inicial'', cell_of_float (fst km)),
                                    (''km_final'', cell_of_float (fst (snd km))),
                                    (''km_total'', cell_of_float (snd (snd km))),
                                    (''valor_dia_util_calculo'', num pf (grid_cell df r c)),
                                    (''frete_peso_entrega'', num pf (grid_cell df r c)),
                                    (''frete_peso_retorno'', num pf (grid_cell df r (c + 1))),
                                    (''frete_peso_viagem'', num pf (grid_cell df r (c + 2)))]])
              | _ \<Rightarrow> Inr []) = (Inr (group_record nv pf df r km c) :: error + (string \<times> cell) list list)"
    unfolding group_record_def
    by (cases "grid_cell df 2 (c + 1)") (simp_all split: option.splits)
  show ?thesis
    unfolding u g by simp
qed
lemma upt_div3_step:
  assumes "c + 2 < (n::nat)"
  shows "map (\<lambda>k. c + 3 * k) [0..<(n - c) div 3]
         = c # map (\<lambda>k. (c + 3) + 3 * k) [0..<(n - (c + 3)) div 3]"
proof -
  from assms have "n - c = (n - (c + 3)) + 3" by simp
  then have "(n - c) div 3 = Suc ((n - (c + 3)) div 3)" by (simp only: div_add_self2)
  then have "[0..<(n - c) div 3] = 0 # map Suc [0..<(n - (c + 3)) div 3]"
    by (simp add: upt_conv_Cons map_Suc_upt del: upt_Suc)
  then show ?thesis by (simp add: comp_def algebra_simps)
qed

lemma geral_groups_closed:
  assumes "r < nrows df" and "2 < nrows df"
  shows "geral_groups nv pf df r km c
         = Inr (concat (map (group_record nv pf df r km) (map (\<lambda>k. c + 3 * k) [0..<(ncols df - c) div 3])))"
proof (induction "ncols df - c" arbitrary: c rule: less_induct)
  case less
  show ?case
  proof (cases "c + 2 < ncols df")
    case True
    then have "ncols df - (c + 3) < ncols df - c" by arith
    from less [OF this] group_step [OF assms True, of nv pf km] upt_div3_step [OF True]
    show ?thesis by (simp add: bind_err_def)
  next
    case False
    then have "ncols df - c < 3" by simp
    then have "(ncols df - c) div 3 = 0" by simp
    moreover from False have "geral_groups nv pf df r km c = Inr []"
      by (subst geral_groups.simps) simp
    ultimately show ?thesis by simp
  qed
qed

lemma geral_row_closed:
  assumes "r < nrows df" and "2 < nrows df" and "4 \<le> ncols df"
  shows "geral_row nv pf df r
         = Inr (case km_bounds pf df r of
                  None \<Rightarrow> []
                | Some km \<Rightarrow> concat (map (group_record nv pf df r km) (group_starts df)))"
proof -
  have i: "iloc df r 1 = Inr (grid_cell df r 1)" "iloc df r 2 = Inr (grid_cell df r 2)"
    "iloc df r 3 = Inr (grid_cell df r 3)"
    using assms by (simp_all add: iloc_in_range)
  have u: "geral_row nv pf df r
      = (case bind_err (py_float pf (grid_cell df r 1)) (\<lambda>km_i.
           bind_err (py_float pf (grid_cell df r 2)) (\<lambda>km_f.
           bind_err (py_float pf (grid_cell df r 3)) (\<lambda>km_t. Inr (km_i, km_f, km_t)))) of
        Inl e \<Rightarrow> if e = TypeError \<or> e = ValueError then Inr [] else Inl e
      | Inr km \<Rightarrow> Inr (concat (map (group_record nv pf df r km) (group_starts df))))"
    by (simp only: geral_row_def i bind_err_Inr group_starts_def
        geral_groups_closed [OF assms(1,2), of nv pf _ 4])
  have k: "km_bounds pf df r
      = (case (py_float pf (grid_cell df r 1), py_float pf (grid_cell df r 2),
               py_float pf (grid_cell df r 3)) of
        (Inr km_i, Inr km_f, Inr km_t) \<Rightarrow> Some (km_i, km_f, km_t)
      | _ \<Rightarrow> None)"
    by (simp only: km_bounds_def)
  show ?thesis
  proof (cases "py_float pf (grid_cell df r 1)")
    case (Inl e)
    with py_float_error [OF Inl] show ?thesis
      unfolding u k by simp
  next
    case a: (Inr km_i)
    show ?thesis
    proof (cases "py_float pf (grid_cell df r 2)")
      case (Inl e)
      with py_float_error [OF Inl] a show ?thesis
        unfolding u k by simp
    next
      case b: (Inr km_f)
      show ?thesis
      proof (cases "py_float pf (grid_cell df r 3)")
        case (Inl e)
        with py_float_error [OF Inl] a b show ?thesis
          unfolding u k by simp
      next
        case (Inr km_t)
        with a b show ?thesis
          unfolding u k by simp
      qed
    qed
  qed
qed

lemma geral_rows_closed:
  assumes "list_all (\<lambda>r. r < nrows df) rs" and "2 < nrows df" and "4 \<le> ncols df"
  shows "geral_rows nv pf df rs
         = Inr (concat (map (\<lambda>r. case km_bounds pf df r of
                               None \<Rightarrow> []
                             | Some km \<Rightarrow> concat (map (group_record nv pf df r km) (group_starts df))) rs))"
  using assms(1)
  by (induction rs) (simp_all add: bind_err_def geral_row_closed [OF _ assms(2,3)])

lemma DataFrame_rows_empty: "rows (DataFrame ds) = [] \<longleftrightarrow> ds = []"
  by (simp add: DataFrame_def Let_def)

text \<open>
  Claim C8: when the per-vehicle sheets give no row, the extractor reads the
  consolidated sheet in the layout above: it returns the records of that layout, each
  name passed through the normalizer and the groups that do not resolve left out without
  an exception, and the output is not empty when the sheet is valid, that is when some
  data row has bounds that convert and some group has a name that resolves. The
  statement is for a workbook that has the consolidated sheet.
\<close>

theorem fallback_layout:
  assumes primary: "vehicle_sheets pf xl (sheet_names xl) = Inr []"
    and sheet: "read_excel xl ''FRETE PESO - GERAL'' = Inr df"
  shows "read_calculo_frete nv pf xl = Inr (DataFrame (fallback_records nv pf df))
         \<and> (5 \<le> ncols df \<and> 4 \<le> r \<and> r < nrows df \<and> km_bounds pf df r = Some km
             \<and> 4 + 3 * n + 2 < ncols df \<and> grid_cell df 2 (4 + 3 * n + 1) = Str name
             \<and> nv (strip name) = Some v \<and> v \<noteq> []
            \<longrightarrow> rows (DataFrame (fallback_records nv pf df)) \<noteq> []
                \<and> [(''vehicle_type'', Str v),
                    (''km_inicial'', cell_of_float (fst km)),
                    (''km_final'', cell_of_float (fst (snd km))),
                    (''km_total'', cell_of_float (snd (snd km))),
                    (''valor_dia_util_calculo'', num pf (grid_cell df r (4 + 3 * n))),
                    (''frete_peso_entrega'', num pf (grid_cell df r (4 + 3 * n))),
                    (''frete_peso_retorno'', num pf (grid_cell df r (4 + 3 * n + 1))),
                    (''frete_peso_viagem'', num pf (grid_cell df r (4 + 3 * n + 2)))]
                  \<in> set (fallback_records nv pf df))"
proof -
  have ret: "read_calculo_frete nv pf xl = Inr (DataFrame (fallback_records nv pf df))"
  proof (cases "4 \<le> nrows df \<and> 5 \<le> ncols df")
    case True
    then have "list_all (\<lambda>r. r < nrows df) [4..<nrows df]" "2 < nrows df" "4 \<le> ncols df"
      by (simp_all add: list_all_iff)
    from geral_rows_closed [OF this, of nv pf] True primary sheet show ?thesis
      by (simp add: read_calculo_frete_def bind_err_def fallback_records_def)
  next
    case False
    with primary sheet show ?thesis
      by (auto simp: read_calculo_frete_def bind_err_def fallback_records_def)
  qed
  have valid: "rows (DataFrame (fallback_records nv pf df)) \<noteq> []
                \<and> [(''vehicle_type'', Str v),
                    (''km_inicial'', cell_of_float (fst km)),
                    (''km_final'', cell_of_float (fst (snd km))),
                    (''km_total'', cell_of_float (snd (snd km))),
                    (''valor_dia_util_calculo'', num pf (grid_cell df r (4 + 3 * n))),
                    (''frete_peso_entrega'', num pf (grid_cell df r (4 + 3 * n))),
                    (''frete_peso_retorno'', num pf (grid_cell df r (4 + 3 * n + 1))),
                    (''frete_peso_viagem'', num pf (grid_cell df r (4 + 3 * n + 2)))]
                  \<in> set (fallback_records nv pf df)"
    if h: "5 \<le> ncols df" "4 \<le> r" "r < nrows df" "km_bounds pf df r = Some km"
      "4 + 3 * n + 2 < ncols df" "grid_cell df 2 (4 + 3 * n + 1) = Str name"
      "nv (strip name) = Some v" "v \<noteq> []"
  proof -
    from h(5) have "n < (ncols df - 4) div 3" by arith
    then have c: "4 + 3 * n \<in> set (group_starts df)"
      by (auto simp: group_starts_def)
    have g: "group_record nv pf df r km (4 + 3 * n) =
             [[(''vehicle_type'', Str v),
                    (''km_inicial'', cell_of_float (fst km)),
                    (''km_final'', cell_of_float (fst (snd km))),
                    (''km_total'', cell_of_float (snd (snd km))),
                    (''valor_dia_util_calculo'', num pf (grid_cell df r (4 + 3 * n))),
                    (''frete_peso_entrega'', num pf (grid_cell df r (4 + 3 * n))),
                    (''frete_peso_retorno'', num pf (grid_cell df r (4 + 3 * n + 1))),
                    (''frete_peso_viagem'', num pf (grid_cell df r (4 + 3 * n + 2)))]]"
      using h(6,7,8) by (simp add: group_record_def)
    from h(2,3) have r: "r \<in> set [4..<nrows df]" by simp
    from h(1,2,3) have "4 \<le> nrows df \<and> 5 \<le> ncols df" by arith
    then have "fallback_records nv pf df
       = concat (map (\<lambda>r. case km_bounds pf df r of
                               None \<Rightarrow> []
                             | Some km \<Rightarrow> concat (map (group_record nv pf df r km) (group_starts df)))
                       [4..<nrows df])"
      by (simp add: fallback_records_def)
    then have fb: "set (fallback_records nv pf df)
       = (\<Union>r\<in>set [4..<nrows df]. set (case km_bounds pf df r of
                               None \<Rightarrow> []
                             | Some km \<Rightarrow> concat (map (group_record nv pf df r km) (group_starts df))))"
      by (simp only: set_concat set_map image_image)
    let ?rec = "[(''vehicle_type'', Str v),
                    (''km_inicial'', cell_of_float (fst km)),
                    (''km_final'', cell_of_float (fst (snd km))),
                    (''km_total'', cell_of_float (snd (snd km))),
                    (''valor_dia_util_calculo'', num pf (grid_cell df r (4 + 3 * n))),
                    (''frete_peso_entrega'', num pf (grid_cell df r (4 + 3 * n))),
                    (''frete_peso_retorno'', num pf (grid_cell df r (4 + 3 * n + 1))),
                    (''frete_peso_viagem'', num pf (grid_cell df r (4 + 3 * n + 2)))]"
    have "?rec \<in> set (group_record nv pf df r km (4 + 3 * n))"
      by (simp only: g) simp
    with c have "?rec \<in> (\<Union>c\<in>set (group_starts df). set (group_record nv pf df r km c))"
      by (rule UN_I)
    then have "?rec \<in> set (case km_bounds pf df r of
                               None \<Rightarrow> []
                             | Some km \<Rightarrow> concat (map (group_record nv pf df r km) (group_starts df)))"
      by (simp only: h(4) option.case set_concat set_map image_image)
    with r have m: "?rec \<in> set (fallback_records nv pf df)"
      unfolding fb by (rule UN_I)
    then have "fallback_records nv pf df \<noteq> []" by auto
    with m show ?thesis by (simp add: DataFrame_rows_empty)
  qed
  from ret valid show ?thesis by blast
qed

theorem fallback_layout_witness:
  "read_calculo_frete normalize_van_only plain_float consolidated_only
   = Inr \<lparr>columns = [''vehicle_type'', ''km_inicial'', ''km_final'', ''km_total'',
                     ''valor_dia_util_calculo'', ''frete_peso_entrega'', ''frete_peso_retorno'',
                     ''frete_peso_viagem''],
          rows = [[Str ''VAN - CARGA SECA'', Num 0, Num 100, Num 101, Num 1, Num 1, Num 2, Num 3]]\<rparr>"
proof -
  have primary: "vehicle_sheets plain_float consolidated_only (sheet_names consolidated_only) = Inr []"
    by code_simp
  have sheet: "read_excel consolidated_only ''FRETE PESO - GERAL''
               = Inr (snd (hd consolidated_only))"
    by code_simp
  have v: "DataFrame (fallback_records normalize_van_only plain_float (snd (hd consolidated_only)))
           = \<lparr>columns = [''vehicle_type'', ''km_inicial'', ''km_final'', ''km_total'',
                     ''valor_dia_util_calculo'', ''frete_peso_entrega'', ''frete_peso_retorno'',
                     ''frete_peso_viagem''],
          rows = [[Str ''VAN - CARGA SECA'', Num 0, Num 100, Num 101, Num 1, Num 1, Num 2, Num 3]]\<rparr>"
    by code_simp
  from fallback_layout [OF primary sheet, of normalize_van_only] show ?thesis
    by (simp only: v)
qed

text \<open>
  Claim C5: a missing, blank or unparseable expected sheet, label or cell never makes an
  extractor raise. \<open>read_calculo_frete\<close> reads the consolidated sheet without asking
  whether the workbook has it (line 83), unlike the loop over the cost sheets of
  \<open>read_base_valores\<close> (line 57): for a workbook with none of the expected sheets it
  raises \<open>ValueError\<close>.
\<close>

theorem missing_sheet_raises:
  "read_calculo_frete normalize_van_only plain_float no_expected_sheets = Inl ValueError"
  by code_simp

subsection \<open>The context record of the quotation workbook\<close>















end
